theory Spec2Isabelle
  imports Complex_Main
begin

section \<open>Errors\<close>

text \<open>
  The exceptions of the Python source that the modelled functions can raise.  A function
  that can raise returns \<open>py_error + 'a\<close>, with \<open>Inl\<close> for the exception; a method
  that may have mutated its object before raising returns the exception, if any, beside
  the state it leaves.  \<open>OSError errno message filename\<close> covers both
  \<^verbatim>\<open>OSError(message)\<close> and \<^verbatim>\<open>OSError(errno, message, filename)\<close>.
\<close>

datatype py_error =
    TypeError
  | ZeroDivisionError
  | ValueError string
  | OSError "int option" string "string option"
  | OtherError string

section \<open>RTTData: the round-trip-time accumulator\<close>

text \<open>
  \<^verbatim>\<open>class RTTData\<close> of \<^verbatim>\<open>diagnostics.py\<close>.  The counters are Python integers; the latency
  statistics are Python floats or \<^verbatim>\<open>None\<close>.  Floats are idealised as exact rationals, so
  \<^verbatim>\<open>float(latency)\<close> is the identity here.
\<close>

record RTTData =
  rtt_host :: string
  initial_data :: bool
  rtt_last :: "rat option"
  average :: "rat option"
  minimum :: "rat option"
  maximum :: "rat option"
  jitter :: "rat option"
  sent :: int
  received :: int

definition RTTData_init :: "string \<Rightarrow> RTTData" where
  "RTTData_init h =
     \<lparr>rtt_host = h, initial_data = False, rtt_last = None, average = None, minimum = None,
      maximum = None, jitter = None, sent = 0, received = 0\<rparr>"

definition lost :: "RTTData \<Rightarrow> int" where
  "lost r = sent r - received r"

definition loss :: "RTTData \<Rightarrow> rat" where
  "loss r = (if sent r = 0 then 0 else 1 - of_int (received r) / of_int (sent r))"

text \<open>
  \<^verbatim>\<open>RTTData.update\<close>.  Both counters are incremented before the statistics are touched, so
  every later read of \<^verbatim>\<open>self._sent\<close> sees the incremented value (\<open>s\<close> below).  Arithmetic
  on a statistic that is still \<^verbatim>\<open>None\<close> raises \<^verbatim>\<open>TypeError\<close>, and a zero divisor raises
  \<^verbatim>\<open>ZeroDivisionError\<close>.
\<close>

definition update :: "rat option \<Rightarrow> RTTData \<Rightarrow> py_error + RTTData" where
  "update latency r =
     (case latency of
        None \<Rightarrow> Inr (r\<lparr>sent := sent r + 1\<rparr>)
      | Some v \<Rightarrow>
          let s = sent r + 1; rc = received r + 1 in
          if \<not> initial_data r then
            Inr (r\<lparr>sent := s, received := rc, rtt_last := Some v, average := Some v,
                   minimum := Some v, maximum := Some v, jitter := Some 0,
                   initial_data := True\<rparr>)
          else
            (case (average r, minimum r, maximum r, rtt_last r, jitter r) of
               (Some a, Some mn, Some mx, Some l, Some j) \<Rightarrow>
                 if s + 1 = 0 then Inl ZeroDivisionError
                 else
                   let a' = (of_int s * a + v) / of_int (s + 1);
                       mn' = (if v < mn then v else mn);
                       mx' = (if v > mx then v else mx);
                       last_jitter = \<bar>v - l\<bar>;
                       j' = (of_int s * j + last_jitter) / of_int (s + 1)
                   in Inr (r\<lparr>sent := s, received := rc, average := Some a',
                              minimum := Some mn', maximum := Some mx', jitter := Some j',
                              rtt_last := Some v\<rparr>)
             | _ \<Rightarrow> Inl TypeError))"

text \<open>A sequence of \<^verbatim>\<open>update\<close> calls on one accumulator; an exception ends the sequence.\<close>

fun update_all :: "rat option list \<Rightarrow> RTTData \<Rightarrow> py_error + RTTData" where
  "update_all [] r = Inr r"
| "update_all (x # xs) r = (case update x r of Inl e \<Rightarrow> Inl e | Inr r' \<Rightarrow> update_all xs r')"

text \<open>
  The state invariant of an accumulator: the counters are ordered, and once a sample has
  been recorded this is flagged and every statistic holds a number.
\<close>

definition rtt_ok :: "RTTData \<Rightarrow> bool" where
  "rtt_ok r = (0 \<le> received r \<and> received r \<le> sent r \<and>
     (if initial_data r
      then average r \<noteq> None \<and> minimum r \<noteq> None \<and> maximum r \<noteq> None \<and>
           rtt_last r \<noteq> None \<and> jitter r \<noteq> None
      else True))"

text \<open>
  The running-mean step as the specification words it, over the \<^emph>\<open>pre-increment\<close> counter
  \<open>sent_before\<close>; used for comparison with \<open>update\<close> only.
\<close>

definition spec_running_mean :: "int \<Rightarrow> rat \<Rightarrow> rat \<Rightarrow> rat" where
  "spec_running_mean sent_before old x = (of_int sent_before * old + x) / of_int (sent_before + 1)"

section \<open>Text formatting\<close>

text \<open>
  \<^verbatim>\<open>str(i)\<close> for a Python integer, and the format specifications \<^verbatim>\<open>:<w\<close> (pad on the
  right to width \<open>w\<close>) and \<^verbatim>\<open>:>w\<close> (pad on the left).
\<close>

fun str_nat :: "nat \<Rightarrow> string" where
  "str_nat n =
     (if n < 10 then [''0123456789'' ! n]
      else str_nat (n div 10) @ [''0123456789'' ! (n mod 10)])"

declare str_nat.simps [simp del]

definition str_int :: "int \<Rightarrow> string" where
  "str_int i = (if i < 0 then CHR ''-'' # str_nat (nat (- i)) else str_nat (nat i))"

definition ljust :: "nat \<Rightarrow> string \<Rightarrow> string" where
  "ljust w s = s @ replicate (w - length s) CHR '' ''"

definition rjust :: "nat \<Rightarrow> string \<Rightarrow> string" where
  "rjust w s = replicate (w - length s) CHR '' '' @ s"

fun join_lines :: "string list \<Rightarrow> string" where
  "join_lines [] = []"
| "join_lines [l] = l"
| "join_lines (l # ls) = l @ CHR 0x0A # join_lines ls"

section \<open>Traceroute\<close>

text \<open>
  A hop as \<^verbatim>\<open>icmplib.traceroute\<close> reports it, with the attributes that
  \<^verbatim>\<open>Traceroute.format\<close> reads.
\<close>

record hop =
  distance :: int
  address :: string
  avg_rtt :: rat
  min_rtt :: rat
  max_rtt :: rat
  hop_jitter :: rat
  packets_sent :: int
  packets_received :: int

record Traceroute =
  tr_host :: string
  hops :: "hop list option"

text \<open>The row that \<^verbatim>\<open>format\<close> synthesises for a distance at which no hop replied.\<close>

definition placeholder_line :: "int \<Rightarrow> string" where
  "placeholder_line i =
     ljust 2 (str_int i) @ ''  *               -       -       -       -       -    -    100.0%''"

text \<open>
  The row of a hop.  Python's fixed-point float formatting \<^verbatim>\<open>.3f\<close> and \<^verbatim>\<open>.1f\<close> is the
  parameter \<open>fmt\<close> (precision, value).  The loss percentage is computed first, and its true
  division raises for a zero \<^verbatim>\<open>packets_sent\<close>.
\<close>

definition hop_line :: "(nat \<Rightarrow> rat \<Rightarrow> string) \<Rightarrow> hop \<Rightarrow> py_error + string" where
  "hop_line fmt h =
     (if packets_sent h = 0 then Inl ZeroDivisionError
      else
        let loss_percent = (1 - of_int (packets_received h) / of_int (packets_sent h)) * 100
        in Inr (ljust 2 (str_int (distance h)) @ ''  '' @ ljust 15 (address h) @ '' '' @
                ljust 7 (fmt 3 (avg_rtt h)) @ '' '' @ ljust 7 (fmt 3 (min_rtt h)) @ '' '' @
                ljust 7 (fmt 3 (max_rtt h)) @ '' '' @ ljust 7 (fmt 3 (hop_jitter h)) @ '' '' @
                ljust 4 (str_int (packets_sent h)) @ '' '' @
                ljust 4 (str_int (packets_received h)) @ '' '' @
                rjust 5 (fmt 1 loss_percent) @ ''%''))"

text \<open>
  The loop of \<^verbatim>\<open>Traceroute.format\<close> over the hops, with its variables \<^verbatim>\<open>lines\<close> and
  \<^verbatim>\<open>last_distance\<close>; \<^verbatim>\<open>range(last_distance + 1, hop.distance)\<close> is
  \<open>[last_distance + 1 .. distance hop - 1]\<close>.
\<close>

fun format_hops ::
  "(nat \<Rightarrow> rat \<Rightarrow> string) \<Rightarrow> string list \<Rightarrow> int \<Rightarrow> hop list \<Rightarrow> py_error + string list" where
  "format_hops fmt lines last_distance [] = Inr lines"
| "format_hops fmt lines last_distance (h # hs) =
     (let lines1 = lines @ map placeholder_line [last_distance + 1 .. distance h - 1]
      in case hop_line fmt h of
           Inl e \<Rightarrow> Inl e
         | Inr line \<Rightarrow> format_hops fmt (lines1 @ [line]) (distance h) hs)"

definition format_lines :: "(nat \<Rightarrow> rat \<Rightarrow> string) \<Rightarrow> Traceroute \<Rightarrow> py_error + string list" where
  "format_lines fmt t =
     (case hops t of
        None \<Rightarrow> Inl (ValueError ''No traceroute data'')
      | Some hs \<Rightarrow>
          format_hops fmt
            [''Host: '' @ tr_host t,
             ''Hop Host            Avg     Min     Max     Jitter  Sent Recv Loss'']
            0 hs)"

definition Traceroute_format :: "(nat \<Rightarrow> rat \<Rightarrow> string) \<Rightarrow> Traceroute \<Rightarrow> py_error + string" where
  "Traceroute_format fmt t = map_sum id join_lines (format_lines fmt t)"

text \<open>
  For stating the layout of the output: the largest distance of a hop list (0 for no
  hops), and the row expected at a distance.
\<close>

definition max_distance :: "hop list \<Rightarrow> int" where
  "max_distance hs = fold max (map distance hs) 0"

definition row_at :: "(nat \<Rightarrow> rat \<Rightarrow> string) \<Rightarrow> hop list \<Rightarrow> int \<Rightarrow> string" where
  "row_at fmt hs d =
     (case find (\<lambda>h. distance h = d) hs of
        None \<Rightarrow> placeholder_line d
      | Some h \<Rightarrow> (case hop_line fmt h of Inr line \<Rightarrow> line | Inl e \<Rightarrow> []))"

section \<open>SpeedTest\<close>

datatype test_type = Down | Up

text \<open>\<^verbatim>\<open>cfspeedtest.TestSpec(size, iterations, name, type)\<close>.\<close>

datatype test_spec = TestSpec nat nat string test_type

definition LATENCY_TEST :: test_spec where
  "LATENCY_TEST = TestSpec 1 20 ''latency'' Down"

definition SHORT_TESTS :: "test_spec list" where
  "SHORT_TESTS =
     [LATENCY_TEST, TestSpec 5000000 4 ''20MB'' Down, TestSpec 2500000 4 ''10MB'' Up]"

definition LONG_TESTS :: "test_spec list" where
  "LONG_TESTS =
     [LATENCY_TEST, TestSpec 25000000 4 ''100MB'' Down, TestSpec 5000000 4 ''20MB'' Up]"

section \<open>Diagnostics: the watchdog\<close>

text \<open>
  The fields of \<^verbatim>\<open>class Diagnostics\<close> that the modelled methods read or write.  A thread
  object is its name and whether it is alive; \<^verbatim>\<open>_stop_diagnostics_logging\<close> holds the
  directory whose session logging the stored callable would stop.  The interface
  monitor, the probe objects and the callbacks are left out.
\<close>

datatype thread = Thread (thread_name: string) (is_alive: bool)

record Diagnostics =
  diagnostics_dir :: string
  stop_diagnostics_logging :: "string option"
  running :: bool
  active_interruption :: bool
  total_interruptions :: int
  internet_connectivity :: bool
  watchdog_thread :: "thread option"
  watchdog_interruption_tests_interval :: rat
  icmp_external_test_server :: "string option"
  icmp_external_test_server_changed :: bool
  icmp_external_test_seq_loss :: int
  icmp_cs2_test_server :: "string option"
  icmp_cs2_test_server_changed :: bool
  icmp_max_seq_loss :: int
  speed_test_min_duration :: rat

text \<open>\<^verbatim>\<open>Diagnostics.__init__\<close>; \<open>dir\<close> is what \<^verbatim>\<open>get_diagnostics_dir()\<close> returns.\<close>

definition Diagnostics_init :: "string \<Rightarrow> string option \<Rightarrow> Diagnostics" where
  "Diagnostics_init dir external_test_server =
     \<lparr>diagnostics_dir = dir, stop_diagnostics_logging = None, running = False,
      active_interruption = False, total_interruptions = 0, internet_connectivity = True,
      watchdog_thread = None, watchdog_interruption_tests_interval = 1,
      icmp_external_test_server = external_test_server,
      icmp_external_test_server_changed = False, icmp_external_test_seq_loss = 0,
      icmp_cs2_test_server = None, icmp_cs2_test_server_changed = False,
      icmp_max_seq_loss = 1, speed_test_min_duration = 10\<rparr>"

subsection \<open>start and stop\<close>

text \<open>The property \<^verbatim>\<open>Diagnostics.running\<close>: a watchdog thread exists and is alive.\<close>

definition Diagnostics_running :: "Diagnostics \<Rightarrow> bool" where
  "Diagnostics_running d = (case watchdog_thread d of None \<Rightarrow> False | Some t \<Rightarrow> is_alive t)"

text \<open>
  What \<^verbatim>\<open>start\<close> changes outside the object: the paths that exist, the firewall rule,
  the directories whose session logging runs, and the number of watchdog threads
  started.
\<close>

record world =
  paths :: "string set"
  firewall_rules :: bool
  session_logging :: "string list"
  watchdog_threads_started :: nat

text \<open>
  What one call of \<^verbatim>\<open>start\<close> meets: the timestamp, and for each guarded call the
  exception it raises, if any (\<^verbatim>\<open>Path.exists\<close>, \<^verbatim>\<open>create_firewall_rules\<close>,
  \<^verbatim>\<open>Path.mkdir\<close>, \<^verbatim>\<open>setup_diagnostics_logging\<close> and the \<^verbatim>\<open>start\<close> callable it
  returns).
\<close>

record start_env =
  timestamp :: string
  exists_error :: "py_error option"
  firewall_error :: "py_error option"
  mkdir_error :: "py_error option"
  logging_setup_error :: "py_error option"
  logging_start_error :: "py_error option"

text \<open>
  The loop \<^verbatim>\<open>while current_diagnostics_dir.exists()\<close> with its counter \<open>i\<close>.  It need not
  end when infinitely many paths exist, which is the value \<open>None\<close>.
\<close>

partial_function (option) unused_dir ::
  "string set \<Rightarrow> string \<Rightarrow> string \<Rightarrow> string \<Rightarrow> int \<Rightarrow> string option" where
  "unused_dir ps dir ts current i =
     (if current \<in> ps then unused_dir ps dir ts (dir @ ''/'' @ ts @ ''.'' @ str_int i) (i + 1)
      else Some current)"

text \<open>
  \<^verbatim>\<open>Diagnostics.start\<close>.  The result is the exception raised, if any, with the object
  and the world as the call leaves them.  An \<^verbatim>\<open>OSError\<close> of \<^verbatim>\<open>mkdir\<close> is caught by the
  first handler, which re-raises without resetting \<^verbatim>\<open>_running\<close>; every other handler
  resets it.
\<close>

definition start ::
  "start_env \<Rightarrow> Diagnostics \<times> world \<Rightarrow> (py_error option \<times> Diagnostics \<times> world) option" where
  "start env dw =
     (let d = fst dw; w = snd dw in
      if (case watchdog_thread d of None \<Rightarrow> False | Some t \<Rightarrow> is_alive t) then Some (None, d, w)
      else
        let d1 = d\<lparr>running := True\<rparr> in
        case exists_error env of
          Some e \<Rightarrow> Some (Some e, d1\<lparr>running := False\<rparr>, w)
        | None \<Rightarrow>
        (case unused_dir (paths w) (diagnostics_dir d) (timestamp env)
                (diagnostics_dir d @ ''/'' @ timestamp env) 2 of
           None \<Rightarrow> None
         | Some current \<Rightarrow>
           (case firewall_error env of
              Some e \<Rightarrow> Some (Some e, d1\<lparr>running := False\<rparr>, w)
            | None \<Rightarrow>
              let w1 = w\<lparr>firewall_rules := True\<rparr> in
              (case mkdir_error env of
                 Some (OSError errno msg fname) \<Rightarrow>
                   Some (Some (OSError errno ''Failed to create current diagnostics directory''
                                 (Some current)), d1, w1)
               | Some e \<Rightarrow> Some (Some e, d1\<lparr>running := False\<rparr>, w1)
               | None \<Rightarrow>
                 let w2 = w1\<lparr>paths := insert current (paths w1)\<rparr> in
                 (case logging_setup_error env of
                    Some e \<Rightarrow> Some (Some e, d1\<lparr>running := False\<rparr>, w2)
                  | None \<Rightarrow>
                    let d2 = d1\<lparr>stop_diagnostics_logging := Some current\<rparr> in
                    (case logging_start_error env of
                       Some e \<Rightarrow> Some (Some e, d2\<lparr>running := False\<rparr>, w2)
                     | None \<Rightarrow>
                       Some (None,
                             d2\<lparr>watchdog_thread := Some (Thread ''watchdog'' True)\<rparr>,
                             w2\<lparr>session_logging := current # session_logging w2,
                                watchdog_threads_started :=
                                  Suc (watchdog_threads_started w2)\<rparr>)))))))"

text \<open>
  \<^verbatim>\<open>Diagnostics.stop\<close>.  The flag is cleared first, whatever the state.  Joining a live
  watchdog thread waits for that thread to end; what the thread does to the object until
  then is the parameter \<open>watchdog_exit\<close>.  Joining a thread that has ended returns at once.
\<close>

definition stop :: "bool \<Rightarrow> (Diagnostics \<Rightarrow> Diagnostics) \<Rightarrow> Diagnostics \<Rightarrow> Diagnostics" where
  "stop blocking watchdog_exit d =
     (let d1 = d\<lparr>running := False\<rparr> in
      case watchdog_thread d1 of
        None \<Rightarrow> d1
      | Some t \<Rightarrow> if blocking \<and> is_alive t then watchdog_exit d1 else d1)"

subsection \<open>Setters of the probe targets\<close>

text \<open>A target is a Python string or \<^verbatim>\<open>None\<close>.\<close>

definition set_icmp_external_test_server ::
  "string option \<Rightarrow> Diagnostics \<Rightarrow> py_error option \<times> Diagnostics" where
  "set_icmp_external_test_server server d =
     (case server of
        None \<Rightarrow> (Some (ValueError ''External server cannot be None''), d)
      | Some s \<Rightarrow>
          (None, d\<lparr>icmp_external_test_server := server,
                   icmp_external_test_server_changed := True\<rparr>))"

definition set_icmp_cs2_test_server :: "string option \<Rightarrow> Diagnostics \<Rightarrow> Diagnostics" where
  "set_icmp_cs2_test_server server d =
     (if icmp_cs2_test_server d = server then d
      else d\<lparr>icmp_cs2_test_server := server, icmp_cs2_test_server_changed := True\<rparr>)"

subsection \<open>Connectivity state\<close>

text \<open>
  \<^verbatim>\<open>_on_icmp_external_test_update(rtt_data, lost)\<close>: the callback of the external probe
  (\<open>was_lost\<close> is its argument \<^verbatim>\<open>lost\<close>).
  The front-end callback and the log lines, the only uses of \<^verbatim>\<open>rtt_data\<close>, are left out.
\<close>

definition on_icmp_external_test_update :: "bool \<Rightarrow> Diagnostics \<Rightarrow> Diagnostics" where
  "on_icmp_external_test_update was_lost d =
     (let d1 = (if was_lost
                then d\<lparr>icmp_external_test_seq_loss := icmp_external_test_seq_loss d + 1\<rparr>
                else d\<lparr>internet_connectivity := True, icmp_external_test_seq_loss := 0\<rparr>)
      in if icmp_external_test_seq_loss d1 \<ge> icmp_max_seq_loss d1
         then d1\<lparr>internet_connectivity := False\<rparr> else d1)"

text \<open>
  \<^verbatim>\<open>_on_icmp_external_test_error(exception)\<close>: the error callback of the external probe,
  which \<^verbatim>\<open>ICMPTest.run\<close> calls for a failed name lookup and for every ICMP error that
  is not a plain timeout.  It clears the connectivity flag and leaves the loss counter
  alone; the log lines, the sleep and the restart of the probe, which writes the probe
  object and its thread only, are left out.
\<close>

definition on_icmp_external_test_error :: "Diagnostics \<Rightarrow> Diagnostics" where
  "on_icmp_external_test_error d = d\<lparr>internet_connectivity := False\<rparr>"

text \<open>
  What the external probe reports, in order: an update (\<open>ProbeUpdate was_lost\<close>) or an
  error.  \<open>since_success\<close> is the part of a report list after its last successful update
  (all of it when there is none), latest report first, and \<open>timeouts_since_success\<close>
  counts the timeouts in that part.
\<close>

datatype probe_event = ProbeUpdate bool | ProbeError

fun probe_step :: "probe_event \<Rightarrow> Diagnostics \<Rightarrow> Diagnostics" where
  "probe_step (ProbeUpdate was_lost) d = on_icmp_external_test_update was_lost d"
| "probe_step ProbeError d = on_icmp_external_test_error d"

definition probe_events :: "probe_event list \<Rightarrow> Diagnostics \<Rightarrow> Diagnostics" where
  "probe_events es d = fold probe_step es d"

definition since_success :: "probe_event list \<Rightarrow> probe_event list" where
  "since_success es = takeWhile (\<lambda>e. e \<noteq> ProbeUpdate False) (rev es)"

definition timeouts_since_success :: "probe_event list \<Rightarrow> int" where
  "timeouts_since_success es = int (length (filter (\<lambda>e. e = ProbeUpdate True) (since_success es)))"

text \<open>
  The connectivity check at the head of the poll loop of \<^verbatim>\<open>_watchdog_run\<close>, with the
  handler it calls.
\<close>

datatype handler_call = OnInterruptionStart int | OnInterruptionEnd

definition watchdog_check_connectivity :: "Diagnostics \<Rightarrow> Diagnostics \<times> handler_call list" where
  "watchdog_check_connectivity d =
     (if \<not> internet_connectivity d then
        (if \<not> active_interruption d then
           let d1 = d\<lparr>active_interruption := True,
                      total_interruptions := total_interruptions d + 1\<rparr>
           in (d1, [OnInterruptionStart (total_interruptions d1)])
         else (d, []))
      else if active_interruption d then
        (d\<lparr>active_interruption := False\<rparr>, [OnInterruptionEnd])
      else (d, []))"

subsection \<open>The tests run during an interruption\<close>

text \<open>
  The retry loop of \<^verbatim>\<open>_on_interruption_start\<close>.  Its four local flags are \<open>loop_vars\<close>.
  What an iteration observes is an \<open>iteration\<close>: the two flags of the loop condition as
  read at its head, whether the traceroute awaited in this iteration has hops, whether the
  first speed test run in this iteration has results and how long it took
  (\<^verbatim>\<open>end - start\<close>), and whether the second speed test run in this iteration has results.
  The loop records the tests it runs as a list of actions.
\<close>

record loop_vars =
  long_speed_test :: bool
  traceroute_succeeded :: bool
  short_speed_test_succeeded :: bool
  long_speed_test_succeeded :: bool

definition loop_vars_init :: loop_vars where
  "loop_vars_init =
     \<lparr>long_speed_test = False, traceroute_succeeded = False,
      short_speed_test_succeeded = False, long_speed_test_succeeded = False\<rparr>"

record iteration =
  it_running :: bool
  it_active_interruption :: bool
  it_traceroute_hops :: bool
  it_first_results :: bool
  it_first_duration :: rat
  it_second_results :: bool

text \<open>\<open>RunTraceroute host count timeout fast\<close>; \<open>RunSpeedTest tests\<close>; \<open>Sleep seconds\<close>.\<close>

datatype action =
    RunTraceroute "string option" nat rat bool
  | RunSpeedTest "test_spec list"
  | Sleep rat

text \<open>The four conditional blocks of the loop body, in the order of the source.\<close>

definition start_traceroute :: "Diagnostics \<Rightarrow> loop_vars \<times> action list \<Rightarrow> loop_vars \<times> action list" where
  "start_traceroute d va =
     (if \<not> traceroute_succeeded (fst va)
      then (fst va, snd va @ [RunTraceroute (icmp_external_test_server d) 3 1 True])
      else va)"

definition short_test :: "Diagnostics \<Rightarrow> iteration \<Rightarrow> loop_vars \<times> action list \<Rightarrow> loop_vars \<times> action list" where
  "short_test d it va =
     (if \<not> short_speed_test_succeeded (fst va) then
        let acts = snd va @ [RunSpeedTest SHORT_TESTS] in
        if it_first_results it then
          let v1 = (fst va)\<lparr>short_speed_test_succeeded := True\<rparr> in
          if it_first_duration it < speed_test_min_duration d
          then (v1\<lparr>long_speed_test := True\<rparr>, acts) else (v1, acts)
        else (fst va, acts)
      else va)"

definition long_test :: "iteration \<Rightarrow> loop_vars \<times> action list \<Rightarrow> loop_vars \<times> action list" where
  "long_test it va =
     (if \<not> long_speed_test_succeeded (fst va) \<and> long_speed_test (fst va) then
        let acts = snd va @ [RunSpeedTest SHORT_TESTS] in
        if it_second_results it
        then ((fst va)\<lparr>long_speed_test_succeeded := True\<rparr>, acts) else (fst va, acts)
      else va)"

definition check_traceroute :: "iteration \<Rightarrow> loop_vars \<times> action list \<Rightarrow> loop_vars \<times> action list" where
  "check_traceroute it va =
     (if \<not> traceroute_succeeded (fst va) then
        (if it_traceroute_hops it then ((fst va)\<lparr>traceroute_succeeded := True\<rparr>, snd va) else va)
      else va)"

definition loop_body :: "Diagnostics \<Rightarrow> iteration \<Rightarrow> loop_vars \<times> action list \<Rightarrow> loop_vars \<times> action list" where
  "loop_body d it va = check_traceroute it (long_test it (short_test d it (start_traceroute d va)))"

text \<open>
  How the loop stands after the iterations given: it has left through its condition, it
  has left through \<^verbatim>\<open>break\<close> (``All tests on interruption finished''), or it is still
  retrying, asleep before its next iteration.
\<close>

datatype loop_exit = ConditionFalse | AllTestsFinished | StillRetrying

fun interruption_tests_loop ::
  "Diagnostics \<Rightarrow> iteration list \<Rightarrow> loop_vars \<times> action list \<Rightarrow> loop_exit \<times> loop_vars \<times> action list" where
  "interruption_tests_loop d [] va = (StillRetrying, va)"
| "interruption_tests_loop d (it # its) va =
     (if \<not> (it_running it \<and> it_active_interruption it) then (ConditionFalse, va)
      else
        let va1 = loop_body d it va in
        if traceroute_succeeded (fst va1) \<and> short_speed_test_succeeded (fst va1) \<and>
           long_speed_test_succeeded (fst va1)
        then (AllTestsFinished, va1)
        else interruption_tests_loop d its
               (fst va1, snd va1 @ [Sleep (watchdog_interruption_tests_interval d)]))"

text \<open>
  The sub-tests that the specification requires for the success exit: the traceroute, the
  short speed test and, only if the short speed test was faster than the threshold, the
  long speed test.  Used for comparison with the loop only.
\<close>

definition spec_required_tests_succeeded :: "loop_vars \<Rightarrow> bool" where
  "spec_required_tests_succeeded v =
     (traceroute_succeeded v \<and> short_speed_test_succeeded v \<and>
      (if long_speed_test v then long_speed_test_succeeded v else True))"

section \<open>Properties of the accumulator\<close>

lemma rtt_ok_init: "rtt_ok (RTTData_init h)"
  by (simp add: rtt_ok_def RTTData_init_def)

lemma update_None: "update None r = Inr (r\<lparr>sent := sent r + 1\<rparr>)"
  by (simp add: update_def)

lemma update_ok:
  assumes "rtt_ok r"
  shows "\<exists>r'. update x r = Inr r' \<and> rtt_ok r'"
proof (cases x)
  case None
  with assms show ?thesis by (simp add: update_def rtt_ok_def)
next
  case (Some v)
  show ?thesis
  proof (cases "initial_data r")
    case False
    with Some assms show ?thesis by (simp add: update_def rtt_ok_def Let_def)
  next
    case True
    with assms obtain a mn mx l j where
      f: "average r = Some a" "minimum r = Some mn" "maximum r = Some mx"
         "rtt_last r = Some l" "jitter r = Some j"
      by (auto simp: rtt_ok_def)
    from assms have "sent r + 1 + 1 \<noteq> 0" by (simp add: rtt_ok_def)
    with Some True f assms show ?thesis by (simp add: update_def rtt_ok_def Let_def)
  qed
qed

lemma update_all_ok: "rtt_ok r \<Longrightarrow> \<exists>r'. update_all xs r = Inr r' \<and> rtt_ok r'"
proof (induction xs arbitrary: r)
  case Nil
  then show ?case by simp
next
  case (Cons x xs)
  from update_ok [OF Cons.prems, of x] obtain r1 where
    r1: "update x r = Inr r1" "rtt_ok r1" by blast
  from Cons.IH [OF r1(2)] r1(1) show ?case by simp
qed

lemma update_all_append:
  "update_all (xs @ ys) r = (case update_all xs r of Inl e \<Rightarrow> Inl e | Inr r' \<Rightarrow> update_all ys r')"
  by (induction xs arbitrary: r) (auto split: sum.splits)

lemma update_all_timeouts:
  "update_all (replicate n None) r = Inr (r\<lparr>sent := sent r + int n\<rparr>)"
proof (induction n arbitrary: r)
  case 0
  show ?case by simp
next
  case (Suc n)
  show ?case by (simp add: update_None Suc.IH add.assoc add.commute)
qed

text \<open>
  Claim C5.  Starting from a fresh accumulator, every finite sequence of updates, with
  successful values and timeouts (\<open>None\<close>) interspersed, runs without an exception and
  leaves \<open>received \<le> sent\<close>; the loss is 0 when nothing was sent and
  \<open>1 - received / sent\<close> otherwise.  The sequence is arbitrary, so this holds after each
  call.
\<close>

theorem C5_received_le_sent_and_loss:
  "\<exists>r. update_all xs (RTTData_init h) = Inr r \<and> received r \<le> sent r \<and>
       loss r = (if sent r = 0 then 0 else 1 - of_int (received r) / of_int (sent r))"
proof -
  from update_all_ok [OF rtt_ok_init] obtain r where
    r: "update_all xs (RTTData_init h) = Inr r" "rtt_ok r" by blast
  from r(2) have "received r \<le> sent r" by (simp add: rtt_ok_def)
  with r(1) show ?thesis by (auto simp: loss_def)
qed

text \<open>
  Claim C7.  On a fresh accumulator, after any number \<open>n\<close> (zero included) of timeouts,
  the first update with a value \<open>v\<close> sets last, average, minimum and maximum to \<open>v\<close>
  and the jitter to 0.
\<close>

theorem C7_first_success_after_timeouts:
  "\<exists>r. update_all (replicate n None @ [Some v]) (RTTData_init h) = Inr r \<and>
       rtt_last r = Some v \<and> average r = Some v \<and> minimum r = Some v \<and>
       maximum r = Some v \<and> jitter r = Some 0 \<and> initial_data r \<and>
       sent r = int n + 1 \<and> received r = 1"
  by (simp add: update_all_append update_all_timeouts update_def RTTData_init_def)

lemma update_success_step:
  assumes "rtt_ok r" and "initial_data r"
  shows "\<exists>a j l r'. average r = Some a \<and> jitter r = Some j \<and> rtt_last r = Some l \<and>
           update (Some v) r = Inr r' \<and> sent r' = sent r + 1 \<and> received r' = received r + 1 \<and>
           average r' = Some ((of_int (sent r + 1) * a + v) / of_int (sent r + 2)) \<and>
           jitter r' = Some ((of_int (sent r + 1) * j + \<bar>v - l\<bar>) / of_int (sent r + 2)) \<and>
           rtt_last r' = Some v"
proof -
  from assms obtain a mn mx l j where
    f: "average r = Some a" "minimum r = Some mn" "maximum r = Some mx"
       "rtt_last r = Some l" "jitter r = Some j"
    by (auto simp: rtt_ok_def)
  from assms(1) have nz: "sent r + 1 + 1 \<noteq> 0" by (simp add: rtt_ok_def)
  have two: "sent r + 1 + 1 = sent r + 2" by simp
  from f nz assms(2) show ?thesis
    by (simp add: update_def Let_def two)
qed

text \<open>
  Claim C1, as the specification states it, fails: \<open>update\<close> increments \<open>sent\<close> before it
  computes the mean, so the weight is the post-increment counter.  After the first
  sample 10 the counter is 1 and the average 10; the second sample 20 gives
  \<open>(2 * 10 + 20) / 3 = 40 / 3\<close>, not \<open>(1 * 10 + 20) / 2 = 15\<close>.
\<close>

theorem C1_counterexample:
  "map_sum id sent (update_all [Some 10] (RTTData_init ''1.1.1.1'')) = Inr 1 \<and>
   map_sum id average (update_all [Some 10] (RTTData_init ''1.1.1.1'')) = Inr (Some 10) \<and>
   map_sum id average (update_all [Some 10, Some 20] (RTTData_init ''1.1.1.1'')) = Inr (Some (40 / 3)) \<and>
   map_sum id average (update_all [Some 10, Some 20] (RTTData_init ''1.1.1.1''))
     \<noteq> Inr (Some (spec_running_mean 1 10 20))"
  by (simp add: update_def RTTData_init_def spec_running_mean_def)

text \<open>
  Claim C1, amended.  For every accumulator reached from a fresh one by updates that has
  recorded a successful sample, a further successful \<open>update v\<close> returns with
  \<open>average = (s * average_before + v) / (s + 1)\<close> and
  \<open>jitter = (s * jitter_before + |v - last|) / (s + 1)\<close>, where \<open>s = sent_before + 1\<close> is
  the counter \<^emph>\<open>after\<close> this update's increment.  For the loss-free sequence 10, 20, 10
  the averages are 10, 40/3, 25/2 and the jitters 0, 10/3, 5.
\<close>

theorem C1_running_mean_post_increment:
  "(update_all xs (RTTData_init h) = Inr r \<and> initial_data r \<longrightarrow>
      (\<exists>a j l r'. average r = Some a \<and> jitter r = Some j \<and> rtt_last r = Some l \<and>
         update (Some v) r = Inr r' \<and> sent r' = sent r + 1 \<and>
         average r' = Some ((of_int (sent r + 1) * a + v) / of_int (sent r + 1 + 1)) \<and>
         jitter r' = Some ((of_int (sent r + 1) * j + \<bar>v - l\<bar>) / of_int (sent r + 1 + 1)))) \<and>
   map_sum id (\<lambda>r. (average r, jitter r)) (update_all [Some 10] (RTTData_init h))
     = Inr (Some 10, Some 0) \<and>
   map_sum id (\<lambda>r. (average r, jitter r)) (update_all [Some 10, Some 20] (RTTData_init h))
     = Inr (Some ((2 * 10 + 20) / 3), Some ((2 * 0 + \<bar>20 - 10\<bar>) / 3)) \<and>
   map_sum id (\<lambda>r. (average r, jitter r)) (update_all [Some 10, Some 20, Some 10] (RTTData_init h))
     = Inr (Some ((3 * (40 / 3) + 10) / 4), Some ((3 * (10 / 3) + \<bar>10 - 20\<bar>) / 4))"
proof -
  have general: "\<exists>a j l r'. average r = Some a \<and> jitter r = Some j \<and> rtt_last r = Some l \<and>
         update (Some v) r = Inr r' \<and> sent r' = sent r + 1 \<and>
         average r' = Some ((of_int (sent r + 1) * a + v) / of_int (sent r + 1 + 1)) \<and>
         jitter r' = Some ((of_int (sent r + 1) * j + \<bar>v - l\<bar>) / of_int (sent r + 1 + 1))"
    if run: "update_all xs (RTTData_init h) = Inr r" and init: "initial_data r"
  proof -
    from update_all_ok [OF rtt_ok_init, of xs h] run have "rtt_ok r" by simp
    from update_success_step [OF this init, of v] show ?thesis
      by (auto simp: add.assoc)
  qed
  have concrete:
    "map_sum id (\<lambda>r. (average r, jitter r)) (update_all [Some 10] (RTTData_init h))
       = Inr (Some 10, Some 0)"
    "map_sum id (\<lambda>r. (average r, jitter r)) (update_all [Some 10, Some 20] (RTTData_init h))
       = Inr (Some ((2 * 10 + 20) / 3), Some ((2 * 0 + \<bar>20 - 10\<bar>) / 3))"
    "map_sum id (\<lambda>r. (average r, jitter r)) (update_all [Some 10, Some 20, Some 10] (RTTData_init h))
       = Inr (Some ((3 * (40 / 3) + 10) / 4), Some ((3 * (10 / 3) + \<bar>10 - 20\<bar>) / 4))"
    by (simp_all add: update_def RTTData_init_def)
  from general concrete show ?thesis by blast
qed

theorem C1_running_mean_post_increment_witness:
  "update_all [Some 10] (RTTData_init ''1.1.1.1'')
     = Inr \<lparr>rtt_host = ''1.1.1.1'', initial_data = True, rtt_last = Some 10, average = Some 10,
            minimum = Some 10, maximum = Some 10, jitter = Some 0, sent = 1, received = 1\<rparr> \<and>
   map_sum id (\<lambda>r. (average r, jitter r))
     (update (Some 20) \<lparr>rtt_host = ''1.1.1.1'', initial_data = True, rtt_last = Some 10,
        average = Some 10, minimum = Some 10, maximum = Some 10, jitter = Some 0, sent = 1,
        received = 1\<rparr>) = Inr (Some (40 / 3), Some (10 / 3))"
proof -
  let ?r = "\<lparr>rtt_host = ''1.1.1.1'', initial_data = True, rtt_last = Some 10, average = Some 10,
            minimum = Some 10, maximum = Some 10, jitter = Some 0, sent = 1, received = 1\<rparr>"
  have run: "update_all [Some 10] (RTTData_init ''1.1.1.1'') = Inr ?r"
    by (simp add: update_def RTTData_init_def)
  have "update_all [Some 10] (RTTData_init ''1.1.1.1'') = Inr ?r \<and> initial_data ?r"
    using run by simp
  with C1_running_mean_post_increment [of "[Some 10]" "''1.1.1.1''" ?r 20]
  have "\<exists>a j l r'. average ?r = Some a \<and> jitter ?r = Some j \<and> rtt_last ?r = Some l \<and>
         update (Some 20) ?r = Inr r' \<and> sent r' = sent ?r + 1 \<and>
         average r' = Some ((of_int (sent ?r + 1) * a + 20) / of_int (sent ?r + 1 + 1)) \<and>
         jitter r' = Some ((of_int (sent ?r + 1) * j + \<bar>20 - l\<bar>) / of_int (sent ?r + 1 + 1))"
    by blast
  then have "map_sum id (\<lambda>r. (average r, jitter r)) (update (Some 20) ?r)
     = Inr (Some (40 / 3), Some (10 / 3))"
    by auto
  with run show ?thesis by simp
qed

section \<open>Properties of the traceroute table\<close>

lemma str_nat_digit: "n < 10 \<Longrightarrow> str_nat n = [''0123456789'' ! n]"
  by (simp add: str_nat.simps)

lemma fold_max_ge: "(a::int) \<le> fold max xs a"
proof (induction xs arbitrary: a)
  case Nil
  show ?case by simp
next
  case (Cons x xs)
  have "a \<le> max x a" by simp
  also have "\<dots> \<le> fold max xs (max x a)" by (rule Cons.IH)
  finally show ?case by simp
qed

lemma find_distance_None:
  "\<forall>h\<in>set hs. distance h \<noteq> d \<Longrightarrow> find (\<lambda>h. distance h = d) hs = None"
  by (simp add: find_None_iff)

lemma format_hops_layout:
  assumes "sorted_wrt (<) (map distance hs)"
    and "\<forall>h\<in>set hs. a < distance h"
    and "\<forall>h\<in>set hs. packets_sent h \<noteq> 0"
  shows "format_hops fmt lines a hs =
           Inr (lines @ map (row_at fmt hs) [a + 1 .. fold max (map distance hs) a])"
  using assms
proof (induction hs arbitrary: lines a)
  case Nil
  show ?case by simp
next
  case (Cons h hs)
  let ?d = "distance h"
  let ?M = "fold max (map distance hs) ?d"
  from Cons.prems(2) have ad: "a < ?d" by simp
  from Cons.prems(1) have later: "\<forall>x\<in>set hs. ?d < distance x" and srt: "sorted_wrt (<) (map distance hs)"
    by simp_all
  from Cons.prems(3) have ps: "packets_sent h \<noteq> 0" and ps': "\<forall>x\<in>set hs. packets_sent x \<noteq> 0"
    by simp_all
  from ps obtain line where line: "hop_line fmt h = Inr line"
    by (simp add: hop_line_def Let_def)
  have dM: "?d \<le> ?M" by (rule fold_max_ge)
  have top: "fold max (map distance (h # hs)) a = ?M"
    using ad by (simp add: max_def)
  have split: "[a + 1 .. ?M] = [a + 1 .. ?d - 1] @ ?d # [?d + 1 .. ?M]"
    using ad dM by (intro upto_split3) simp_all
  have before: "map (row_at fmt (h # hs)) [a + 1 .. ?d - 1] = map placeholder_line [a + 1 .. ?d - 1]"
  proof (rule map_cong [OF refl])
    fix d assume "d \<in> set [a + 1 .. ?d - 1]"
    then have lt: "d < ?d" by simp
    with later have "\<forall>x\<in>set hs. distance x \<noteq> d" by auto
    from find_distance_None [OF this] lt show "row_at fmt (h # hs) d = placeholder_line d"
      by (simp add: row_at_def)
  qed
  have at: "row_at fmt (h # hs) ?d = line"
    by (simp add: row_at_def line)
  have after: "map (row_at fmt (h # hs)) [?d + 1 .. ?M] = map (row_at fmt hs) [?d + 1 .. ?M]"
  proof (rule map_cong [OF refl])
    fix d assume "d \<in> set [?d + 1 .. ?M]"
    then have "?d \<noteq> d" by simp
    then show "row_at fmt (h # hs) d = row_at fmt hs d"
      by (simp add: row_at_def)
  qed
  have "format_hops fmt lines a (h # hs) =
          format_hops fmt ((lines @ map placeholder_line [a + 1 .. ?d - 1]) @ [line]) ?d hs"
    by (simp add: line)
  also have "\<dots> = Inr (((lines @ map placeholder_line [a + 1 .. ?d - 1]) @ [line]) @
                       map (row_at fmt hs) [?d + 1 .. ?M])"
    by (rule Cons.IH [OF srt later ps'])
  also have "\<dots> = Inr (lines @ map (row_at fmt (h # hs)) [a + 1 .. ?M])"
    by (simp add: split before at after)
  finally show ?case by (simp only: top)
qed

lemma fold_max_Max: "fold max xs (a::int) = Max (insert a (set xs))"
proof -
  have "Max (set (a # xs)) = fold max xs a" by (rule Max.set_eq_fold)
  then show ?thesis by (simp only: list.set)
qed

lemma max_distance_Max:
  assumes "hs \<noteq> []" and "\<forall>h\<in>set hs. 0 < distance h"
  shows "max_distance hs = Max (distance ` set hs)"
proof -
  from assms(1) have ne: "distance ` set hs \<noteq> {}" by simp
  have fin: "finite (distance ` set hs)" by simp
  from assms(1) have "hd hs \<in> set hs" by (rule hd_in_set)
  then obtain h0 where h0: "h0 \<in> set hs" ..
  with assms(2) have "0 < distance h0" by (rule bspec)
  moreover from h0 have "distance h0 \<in> distance ` set hs" by (rule imageI)
  with fin have "distance h0 \<le> Max (distance ` set hs)" by (rule Max_ge)
  ultimately have nonneg: "0 \<le> Max (distance ` set hs)" by linarith
  have "Max (insert 0 (distance ` set hs)) = max 0 (Max (distance ` set hs))"
    by (rule Max_insert [OF fin ne])
  also have "\<dots> = Max (distance ` set hs)"
    using nonneg by (rule max_absorb2)
  finally have m: "Max (insert 0 (distance ` set hs)) = Max (distance ` set hs)" .
  have "max_distance hs = Max (insert 0 (distance ` set hs))"
    unfolding max_distance_def fold_max_Max by (simp only: set_map)
  also note m
  finally show ?thesis .
qed

lemma find_distance_Some:
  "distinct (map distance hs) \<Longrightarrow> h \<in> set hs \<Longrightarrow> find (\<lambda>x. distance x = distance h) hs = Some h"
proof (induction hs)
  case Nil
  then show ?case by simp
next
  case (Cons x hs)
  show ?case
  proof (cases "x = h")
    case True
    then show ?thesis by simp
  next
    case False
    with Cons.prems(2) have hin: "h \<in> set hs" by simp
    from Cons.prems(1) have "distance x \<notin> distance ` set hs" and d: "distinct (map distance hs)"
      by simp_all
    with hin have "distance x \<noteq> distance h" by blast
    with Cons.IH [OF d hin] show ?thesis by simp
  qed
qed

text \<open>
  Claim C6.  For a completed traceroute whose hop distances are strictly increasing
  positive integers (every hop having sent at least one packet, as every hop that
  \<^verbatim>\<open>icmplib\<close> reports has), \<open>format\<close> returns the two header lines followed by exactly
  one row for each distance from 1 to the maximum observed distance, in order: the hop's
  own row at a distance that is in the list, and the synthesised 100.0% loss row at every
  distance that is not.
\<close>

theorem C6_format_fills_gaps:
  assumes "hops t = Some hs"
    and "sorted_wrt (<) (map distance hs)"
    and "\<forall>h\<in>set hs. 0 < distance h"
    and "\<forall>h\<in>set hs. packets_sent h \<noteq> 0"
  shows "format_lines fmt t =
           Inr ([''Host: '' @ tr_host t,
                 ''Hop Host            Avg     Min     Max     Jitter  Sent Recv Loss''] @
                map (row_at fmt hs) [1 .. max_distance hs]) \<and>
         Traceroute_format fmt t =
           Inr (join_lines
                ([''Host: '' @ tr_host t,
                  ''Hop Host            Avg     Min     Max     Jitter  Sent Recv Loss''] @
                 map (row_at fmt hs) [1 .. max_distance hs])) \<and>
         (\<forall>d. d \<notin> distance ` set hs \<longrightarrow>
            row_at fmt hs d =
              ljust 2 (str_int d) @
              ''  *               -       -       -       -       -    -    100.0%'') \<and>
         (\<forall>h\<in>set hs. hop_line fmt h = Inr (row_at fmt hs (distance h))) \<and>
         (hs \<noteq> [] \<longrightarrow> max_distance hs = Max (distance ` set hs)) \<and>
         (hs = [] \<longrightarrow> max_distance hs = 0)"
proof -
  have layout: "format_lines fmt t =
           Inr ([''Host: '' @ tr_host t,
                 ''Hop Host            Avg     Min     Max     Jitter  Sent Recv Loss''] @
                map (row_at fmt hs) [1 .. max_distance hs])"
    using format_hops_layout [OF assms(2) assms(3) assms(4), of fmt]
    by (simp add: format_lines_def assms(1) max_distance_def)
  have joined: "Traceroute_format fmt t =
           Inr (join_lines
                ([''Host: '' @ tr_host t,
                  ''Hop Host            Avg     Min     Max     Jitter  Sent Recv Loss''] @
                 map (row_at fmt hs) [1 .. max_distance hs]))"
    by (simp only: Traceroute_format_def layout map_sum.simps)
  have gaps: "row_at fmt hs d =
      ljust 2 (str_int d) @ ''  *               -       -       -       -       -    -    100.0%''"
    if "d \<notin> distance ` set hs" for d
  proof -
    from that have "\<forall>h\<in>set hs. distance h \<noteq> d" by auto
    from find_distance_None [OF this] show ?thesis
      by (simp add: row_at_def placeholder_line_def)
  qed
  have present: "hop_line fmt h = Inr (row_at fmt hs (distance h))" if h: "h \<in> set hs" for h
  proof -
    from assms(2) have "distinct (map distance hs)"
      by (simp add: strict_sorted_iff)
    from find_distance_Some [OF this h] have f: "find (\<lambda>x. distance x = distance h) hs = Some h" .
    from assms(4) h have "packets_sent h \<noteq> 0" by blast
    then obtain line where "hop_line fmt h = Inr line"
      by (simp add: hop_line_def Let_def)
    with f show ?thesis by (simp add: row_at_def)
  qed
  have top: "max_distance hs = Max (distance ` set hs)" if "hs \<noteq> []"
    using that by (rule max_distance_Max [OF _ assms(3)])
  have bot: "max_distance hs = 0" if "hs = []"
    using that by (simp add: max_distance_def)
  show ?thesis
    apply (intro conjI allI impI ballI)
         apply (rule layout)
        apply (rule joined)
       apply (erule gaps)
      apply (erule present)
     apply (erule top)
    apply (erule bot)
    done
qed

theorem C6_format_fills_gaps_witness:
  "format_lines (\<lambda>p x. ''0.000'')
     \<lparr>tr_host = ''1.1.1.1'',
      hops = Some [\<lparr>distance = 1, address = ''192.168.0.1'', avg_rtt = 1, min_rtt = 1,
                     max_rtt = 1, hop_jitter = 0, packets_sent = 2, packets_received = 2\<rparr>,
                   \<lparr>distance = 3, address = ''1.1.1.1'', avg_rtt = 9, min_rtt = 8,
                     max_rtt = 10, hop_jitter = 2, packets_sent = 2, packets_received = 1\<rparr>]\<rparr>
   = Inr [''Host: 1.1.1.1'',
          ''Hop Host            Avg     Min     Max     Jitter  Sent Recv Loss'',
          ''1   192.168.0.1     0.000   0.000   0.000   0.000   2    2    0.000%'',
          ''2   *               -       -       -       -       -    -    100.0%'',
          ''3   1.1.1.1         0.000   0.000   0.000   0.000   2    1    0.000%'']"
proof -
  let ?h1 = "\<lparr>distance = 1, address = ''192.168.0.1'', avg_rtt = 1, min_rtt = 1,
               max_rtt = 1, hop_jitter = 0, packets_sent = 2, packets_received = 2\<rparr>"
  let ?h3 = "\<lparr>distance = 3, address = ''1.1.1.1'', avg_rtt = 9, min_rtt = 8,
               max_rtt = 10, hop_jitter = 2, packets_sent = 2, packets_received = 1\<rparr>"
  let ?t = "\<lparr>tr_host = ''1.1.1.1'', hops = Some [?h1, ?h3]\<rparr>"
  have a1: "hops ?t = Some [?h1, ?h3]" by simp
  have a2: "sorted_wrt (<) (map distance [?h1, ?h3])" by simp
  have a3: "\<forall>h\<in>set [?h1, ?h3]. 0 < distance h" by simp
  have a4: "\<forall>h\<in>set [?h1, ?h3]. packets_sent h \<noteq> 0" by simp
  have m: "max_distance [?h1, ?h3] = 3" by (simp add: max_distance_def)
  have u: "[1 .. 3::int] = [1, 2, 3]" by (simp add: upto_rec1)
  from C6_format_fills_gaps [OF a1 a2 a3 a4, of "\<lambda>p x. ''0.000''"]
  have "format_lines (\<lambda>p x. ''0.000'') ?t =
          Inr ([''Host: '' @ tr_host ?t,
                ''Hop Host            Avg     Min     Max     Jitter  Sent Recv Loss''] @
               map (row_at (\<lambda>p x. ''0.000'') [?h1, ?h3]) [1 .. max_distance [?h1, ?h3]])"
    by blast
  then show ?thesis
    by (simp add: m u row_at_def hop_line_def placeholder_line_def str_int_def str_nat_digit
        ljust_def rjust_def eval_nat_numeral)
qed


section \<open>Properties of the target setters\<close>

text \<open>
  Claim C9, as the specification states it, fails for the empty string: the setter
  rejects \<^verbatim>\<open>None\<close> only, so the empty string is stored and the changed flag is set, with
  no exception.
\<close>

theorem C9_counterexample:
  "set_icmp_external_test_server (Some [])
     (Diagnostics_init ''diagnostics'' (Some ''1.1.1.1'')) =
   (None, (Diagnostics_init ''diagnostics'' (Some ''1.1.1.1''))
            \<lparr>icmp_external_test_server := Some [],
             icmp_external_test_server_changed := True\<rparr>) \<and>
   icmp_external_test_server_changed (Diagnostics_init ''diagnostics'' (Some ''1.1.1.1'')) = False"
  by (simp add: set_icmp_external_test_server_def Diagnostics_init_def)

text \<open>
  Claim C9, amended.  For \<^verbatim>\<open>None\<close> the setter raises \<^verbatim>\<open>ValueError\<close> and leaves the object,
  so the stored target and its changed flag, as it was; for every other value, the empty
  string included, it stores the value and sets the changed flag.
\<close>

theorem C9_setter_rejects_None_only:
  "set_icmp_external_test_server None d =
     (Some (ValueError ''External server cannot be None''), d) \<and>
   set_icmp_external_test_server (Some s) d =
     (None, d\<lparr>icmp_external_test_server := Some s,
              icmp_external_test_server_changed := True\<rparr>)"
  by (simp add: set_icmp_external_test_server_def)

text \<open>
  Claim C10.  Setting the secondary target to the value already stored returns the object
  unchanged, so neither the target nor the changed flag moves; setting a different value
  stores it and sets the flag.  The flag is therefore set afterwards exactly when it was
  set before or the value differs.
\<close>

theorem C10_set_cs2_same_value_is_noop:
  "(icmp_cs2_test_server d = s \<longrightarrow> set_icmp_cs2_test_server s d = d) \<and>
   (icmp_cs2_test_server d \<noteq> s \<longrightarrow>
      set_icmp_cs2_test_server s d =
        d\<lparr>icmp_cs2_test_server := s, icmp_cs2_test_server_changed := True\<rparr>) \<and>
   icmp_cs2_test_server_changed (set_icmp_cs2_test_server s d) =
     (icmp_cs2_test_server_changed d \<or> icmp_cs2_test_server d \<noteq> s)"
  by (simp add: set_icmp_cs2_test_server_def)

theorem C10_set_cs2_same_value_is_noop_witness:
  "icmp_cs2_test_server (Diagnostics_init ''diagnostics'' (Some ''1.1.1.1'')) = None \<and>
   set_icmp_cs2_test_server None (Diagnostics_init ''diagnostics'' (Some ''1.1.1.1'')) =
     Diagnostics_init ''diagnostics'' (Some ''1.1.1.1'') \<and>
   icmp_cs2_test_server (Diagnostics_init ''diagnostics'' (Some ''1.1.1.1'')) \<noteq> Some ''10.0.0.7'' \<and>
   set_icmp_cs2_test_server (Some ''10.0.0.7'') (Diagnostics_init ''diagnostics'' (Some ''1.1.1.1'')) =
     (Diagnostics_init ''diagnostics'' (Some ''1.1.1.1''))
       \<lparr>icmp_cs2_test_server := Some ''10.0.0.7'', icmp_cs2_test_server_changed := True\<rparr>"
proof -
  let ?d = "Diagnostics_init ''diagnostics'' (Some ''1.1.1.1'')"
  have same: "icmp_cs2_test_server ?d = None" by (simp add: Diagnostics_init_def)
  have other: "icmp_cs2_test_server ?d \<noteq> Some ''10.0.0.7''" by (simp add: Diagnostics_init_def)
  from same C10_set_cs2_same_value_is_noop [of ?d None]
  have 1: "set_icmp_cs2_test_server None ?d = ?d" by blast
  from other C10_set_cs2_same_value_is_noop [of ?d "Some ''10.0.0.7''"]
  have 2: "set_icmp_cs2_test_server (Some ''10.0.0.7'') ?d =
             ?d\<lparr>icmp_cs2_test_server := Some ''10.0.0.7'', icmp_cs2_test_server_changed := True\<rparr>"
    by blast
  from same other 1 2 show ?thesis by (intro conjI)
qed

section \<open>Properties of the connectivity state\<close>

lemma timeouts_state:
  assumes "internet_connectivity d" and "icmp_external_test_seq_loss d = 0"
    and "1 \<le> icmp_max_seq_loss d"
  shows "(on_icmp_external_test_update True ^^ k) d =
           d\<lparr>icmp_external_test_seq_loss := int k,
             internet_connectivity := (int k < icmp_max_seq_loss d)\<rparr>"
proof (induction k)
  case 0
  from assms show ?case by simp
next
  case (Suc k)
  have "(on_icmp_external_test_update True ^^ Suc k) d =
          on_icmp_external_test_update True ((on_icmp_external_test_update True ^^ k) d)"
    by (simp only: funpow.simps o_apply)
  also have "\<dots> = d\<lparr>icmp_external_test_seq_loss := int (Suc k),
             internet_connectivity := (int (Suc k) < icmp_max_seq_loss d)\<rparr>"
    by (simp only: Suc.IH) (simp add: on_icmp_external_test_update_def Let_def add.commute)
  finally show ?case .
qed

lemma polls_state:
  assumes "\<not> internet_connectivity d" and "\<not> active_interruption d"
  shows "((\<lambda>x. fst (watchdog_check_connectivity x)) ^^ Suc m) d =
           d\<lparr>active_interruption := True, total_interruptions := total_interruptions d + 1\<rparr>"
proof (induction m)
  case 0
  from assms show ?case by (simp add: watchdog_check_connectivity_def Let_def)
next
  case (Suc m)
  have "((\<lambda>x. fst (watchdog_check_connectivity x)) ^^ Suc (Suc m)) d =
          fst (watchdog_check_connectivity (((\<lambda>x. fst (watchdog_check_connectivity x)) ^^ Suc m) d))"
    by (simp only: funpow.simps o_apply)
  also have "\<dots> = d\<lparr>active_interruption := True, total_interruptions := total_interruptions d + 1\<rparr>"
    using assms(1) by (simp only: Suc.IH) (simp add: watchdog_check_connectivity_def)
  finally show ?case .
qed

lemma success_state:
  assumes "1 \<le> icmp_max_seq_loss d"
  shows "on_icmp_external_test_update False d =
           d\<lparr>internet_connectivity := True, icmp_external_test_seq_loss := 0\<rparr>"
  using assms by (simp add: on_icmp_external_test_update_def Let_def)


lemma poll_threshold:
  "icmp_max_seq_loss (((\<lambda>x. fst (watchdog_check_connectivity x)) ^^ m) d) = icmp_max_seq_loss d"
proof (induction m)
  case 0
  show ?case by simp
next
  case (Suc m)
  have "icmp_max_seq_loss (fst (watchdog_check_connectivity x)) = icmp_max_seq_loss x" for x
    by (simp add: watchdog_check_connectivity_def Let_def)
  with Suc.IH show ?case by (simp only: funpow.simps o_apply)
qed



lemma since_success_snoc:
  "since_success (es @ [e]) = (if e = ProbeUpdate False then [] else e # since_success es)"
  by (simp add: since_success_def)

lemma probe_events_snoc: "probe_events (es @ [e]) d = probe_step e (probe_events es d)"
  by (simp add: probe_events_def)

lemma probe_events_state:
  assumes "internet_connectivity d" and "icmp_external_test_seq_loss d = 0"
    and "1 \<le> icmp_max_seq_loss d"
  shows "probe_events es d =
           d\<lparr>icmp_external_test_seq_loss := timeouts_since_success es,
             internet_connectivity :=
               (ProbeError \<notin> set (since_success es) \<and>
                timeouts_since_success es < icmp_max_seq_loss d)\<rparr>"
proof (induction es rule: rev_induct)
  case Nil
  from assms show ?case
    by (simp add: probe_events_def since_success_def timeouts_since_success_def)
next
  case (snoc e es)
  have nonneg: "0 \<le> timeouts_since_success es"
    by (simp add: timeouts_since_success_def)
  show ?case
  proof (cases e)
    case ProbeError
    have "probe_events (es @ [e]) d = on_icmp_external_test_error (probe_events es d)"
      by (simp only: probe_events_snoc ProbeError probe_step.simps)
    also have "\<dots> = d\<lparr>icmp_external_test_seq_loss := timeouts_since_success (es @ [e]),
             internet_connectivity :=
               (ProbeError \<notin> set (since_success (es @ [e])) \<and>
                timeouts_since_success (es @ [e]) < icmp_max_seq_loss d)\<rparr>"
      by (simp only: snoc.IH)
         (simp add: on_icmp_external_test_error_def ProbeError since_success_snoc
            timeouts_since_success_def)
    finally show ?thesis .
  next
    case (ProbeUpdate was_lost)
    have step: "probe_events (es @ [e]) d =
                  on_icmp_external_test_update was_lost (probe_events es d)"
      by (simp only: probe_events_snoc ProbeUpdate probe_step.simps)
    show ?thesis
    proof (cases was_lost)
      case True
      have "on_icmp_external_test_update True (probe_events es d) =
            d\<lparr>icmp_external_test_seq_loss := timeouts_since_success (es @ [e]),
             internet_connectivity :=
               (ProbeError \<notin> set (since_success (es @ [e])) \<and>
                timeouts_since_success (es @ [e]) < icmp_max_seq_loss d)\<rparr>"
        using nonneg
        by (simp only: snoc.IH)
           (auto simp add: on_icmp_external_test_update_def Let_def ProbeUpdate True
              since_success_snoc timeouts_since_success_def)
      with step True show ?thesis by simp
    next
      case False
      have "on_icmp_external_test_update False (probe_events es d) =
            d\<lparr>icmp_external_test_seq_loss := timeouts_since_success (es @ [e]),
             internet_connectivity :=
               (ProbeError \<notin> set (since_success (es @ [e])) \<and>
                timeouts_since_success (es @ [e]) < icmp_max_seq_loss d)\<rparr>"
        using assms(3)
        by (simp only: snoc.IH)
           (simp add: on_icmp_external_test_update_def Let_def ProbeUpdate False
              since_success_snoc timeouts_since_success_def)
      with step False show ?thesis by simp
    qed
  qed
qed


text \<open>
  Claim C4, as the specification states it, fails: timeouts are not the only way the
  flag falls.  The error callback of the external probe clears it at once.  On a fresh
  object, after one probe error and no timeout at all, the flag is clear while the loss
  counter, 0, is below the threshold, 1, and the next poll starts an interruption.
\<close>

theorem C4_counterexample:
  "internet_connectivity (Diagnostics_init ''diagnostics'' (Some ''1.1.1.1'')) \<and>
   \<not> internet_connectivity
       (on_icmp_external_test_error (Diagnostics_init ''diagnostics'' (Some ''1.1.1.1''))) \<and>
   icmp_external_test_seq_loss
       (on_icmp_external_test_error (Diagnostics_init ''diagnostics'' (Some ''1.1.1.1''))) = 0 \<and>
   icmp_max_seq_loss
       (on_icmp_external_test_error (Diagnostics_init ''diagnostics'' (Some ''1.1.1.1''))) = 1 \<and>
   watchdog_check_connectivity
       (on_icmp_external_test_error (Diagnostics_init ''diagnostics'' (Some ''1.1.1.1'')))
     = ((on_icmp_external_test_error (Diagnostics_init ''diagnostics'' (Some ''1.1.1.1'')))
          \<lparr>active_interruption := True, total_interruptions := 1\<rparr>,
        [OnInterruptionStart 1])"
  by (simp add: on_icmp_external_test_error_def watchdog_check_connectivity_def
      Diagnostics_init_def Let_def)

text \<open>
  Claim C4, amended.  Start from stable connectivity: the flag set, no loss counted, no
  interruption active, with a threshold \<open>icmp_max_seq_loss\<close> of at least 1 (the
  constructor sets 1).  After any reports \<open>es\<close> of the external probe, the flag is clear
  exactly when, since the last successful update, the probe has reported an error or
  the number of timeouts has reached the threshold; the loss counter is that number of
  timeouts.  In particular, after \<open>k\<close> consecutive timeouts and nothing else the flag is
  set exactly when \<open>k\<close> is below the threshold, and a probe error clears the flag at once
  and leaves the loss counter as it is.  While the flag is set a poll of the watchdog
  changes nothing; once it is clear, the first poll starts the interruption with the
  counter incremented by one, and however many polls follow, the counter stays at that
  value.  A single successful update, after any reports and polls, sets the flag again
  and resets the loss counter to 0.
\<close>

theorem C4_connectivity_transitions_with_errors:
  assumes "internet_connectivity d" and "icmp_external_test_seq_loss d = 0"
    and "1 \<le> icmp_max_seq_loss d" and "\<not> active_interruption d"
  shows "internet_connectivity (probe_events es d)
           = (ProbeError \<notin> set (since_success es) \<and>
              timeouts_since_success es < icmp_max_seq_loss d) \<and>
         icmp_external_test_seq_loss (probe_events es d) = timeouts_since_success es \<and>
         probe_events (replicate k (ProbeUpdate True)) d
           = (on_icmp_external_test_update True ^^ k) d \<and>
         internet_connectivity ((on_icmp_external_test_update True ^^ k) d)
           = (int k < icmp_max_seq_loss d) \<and>
         icmp_external_test_seq_loss ((on_icmp_external_test_update True ^^ k) d) = int k \<and>
         \<not> internet_connectivity (on_icmp_external_test_error (probe_events es d)) \<and>
         icmp_external_test_seq_loss (on_icmp_external_test_error (probe_events es d))
           = icmp_external_test_seq_loss (probe_events es d) \<and>
         (internet_connectivity (probe_events es d) \<longrightarrow>
            watchdog_check_connectivity (probe_events es d) = (probe_events es d, [])) \<and>
         (\<not> internet_connectivity (probe_events es d) \<longrightarrow>
            snd (watchdog_check_connectivity (probe_events es d))
              = [OnInterruptionStart (total_interruptions d + 1)] \<and>
            total_interruptions
              (((\<lambda>x. fst (watchdog_check_connectivity x)) ^^ Suc m) (probe_events es d))
              = total_interruptions d + 1 \<and>
            active_interruption
              (((\<lambda>x. fst (watchdog_check_connectivity x)) ^^ Suc m) (probe_events es d))) \<and>
         internet_connectivity
           (on_icmp_external_test_update False
              (((\<lambda>x. fst (watchdog_check_connectivity x)) ^^ m) (probe_events es d))) \<and>
         icmp_external_test_seq_loss
           (on_icmp_external_test_update False
              (((\<lambda>x. fst (watchdog_check_connectivity x)) ^^ m) (probe_events es d))) = 0"
proof -
  let ?E = "probe_events es d"
  let ?T = "(on_icmp_external_test_update True ^^ k) d"
  let ?P = "((\<lambda>x. fst (watchdog_check_connectivity x)) ^^ m) ?E"
  have E: "?E = d\<lparr>icmp_external_test_seq_loss := timeouts_since_success es,
                    internet_connectivity :=
                      (ProbeError \<notin> set (since_success es) \<and>
                       timeouts_since_success es < icmp_max_seq_loss d)\<rparr>"
    by (rule probe_events_state [OF assms(1) assms(2) assms(3)])
  have T: "?T = d\<lparr>icmp_external_test_seq_loss := int k,
                    internet_connectivity := (int k < icmp_max_seq_loss d)\<rparr>"
    by (rule timeouts_state [OF assms(1) assms(2) assms(3)])
  have c1: "internet_connectivity ?E
              = (ProbeError \<notin> set (since_success es) \<and>
                 timeouts_since_success es < icmp_max_seq_loss d)"
    by (simp only: E) simp
  have c2: "icmp_external_test_seq_loss ?E = timeouts_since_success es"
    by (simp only: E) simp
  have "probe_step (ProbeUpdate True) = on_icmp_external_test_update True"
    by (rule ext) simp
  then have c3: "probe_events (replicate k (ProbeUpdate True)) d = ?T"
    by (simp add: probe_events_def)
  have c4: "internet_connectivity ?T = (int k < icmp_max_seq_loss d)"
    by (simp only: T) simp
  have c5: "icmp_external_test_seq_loss ?T = int k"
    by (simp only: T) simp
  have c6: "\<not> internet_connectivity (on_icmp_external_test_error ?E)"
    by (simp add: on_icmp_external_test_error_def)
  have c7: "icmp_external_test_seq_loss (on_icmp_external_test_error ?E)
              = icmp_external_test_seq_loss ?E"
    by (simp add: on_icmp_external_test_error_def)
  have act: "\<not> active_interruption ?E"
    using assms(4) by (simp only: E) simp
  have tot: "total_interruptions ?E = total_interruptions d"
    by (simp only: E) simp
  have c8: "watchdog_check_connectivity ?E = (?E, [])" if "internet_connectivity ?E"
    using that act by (simp add: watchdog_check_connectivity_def)
  have c9: "snd (watchdog_check_connectivity ?E) = [OnInterruptionStart (total_interruptions d + 1)]"
    if down: "\<not> internet_connectivity ?E"
    using down act tot by (simp add: watchdog_check_connectivity_def Let_def)
  have polled: "((\<lambda>x. fst (watchdog_check_connectivity x)) ^^ Suc m) ?E =
      ?E\<lparr>active_interruption := True, total_interruptions := total_interruptions ?E + 1\<rparr>"
    if down: "\<not> internet_connectivity ?E"
    by (rule polls_state [OF down act])
  have c10: "total_interruptions (((\<lambda>x. fst (watchdog_check_connectivity x)) ^^ Suc m) ?E)
              = total_interruptions d + 1" if down: "\<not> internet_connectivity ?E"
    by (simp only: polled [OF down]) (simp add: tot)
  have c11: "active_interruption (((\<lambda>x. fst (watchdog_check_connectivity x)) ^^ Suc m) ?E)"
    if down: "\<not> internet_connectivity ?E"
    by (simp only: polled [OF down]) simp
  have "icmp_max_seq_loss ?P = icmp_max_seq_loss ?E" by (rule poll_threshold)
  also have "\<dots> = icmp_max_seq_loss d" by (simp only: E) simp
  finally have "1 \<le> icmp_max_seq_loss ?P" using assms(3) by simp
  then have S: "on_icmp_external_test_update False ?P =
                  ?P\<lparr>internet_connectivity := True, icmp_external_test_seq_loss := 0\<rparr>"
    by (rule success_state)
  have c12: "internet_connectivity (on_icmp_external_test_update False ?P)"
    by (simp only: S) simp
  have c13: "icmp_external_test_seq_loss (on_icmp_external_test_update False ?P) = 0"
    by (simp only: S) simp
  show ?thesis
    apply (intro conjI impI)
                  apply (rule c1)
                 apply (rule c2)
                apply (rule c3)
               apply (rule c4)
              apply (rule c5)
             apply (rule c6)
            apply (rule c7)
           apply (erule c8)
          apply (erule c9)
         apply (erule c10)
        apply (erule c11)
       apply (rule c12)
      apply (rule c13)
    done
qed

theorem C4_connectivity_transitions_with_errors_witness:
  "internet_connectivity (Diagnostics_init ''diagnostics'' (Some ''1.1.1.1'')) \<and>
   icmp_external_test_seq_loss (Diagnostics_init ''diagnostics'' (Some ''1.1.1.1'')) = 0 \<and>
   1 \<le> icmp_max_seq_loss (Diagnostics_init ''diagnostics'' (Some ''1.1.1.1'')) \<and>
   \<not> active_interruption (Diagnostics_init ''diagnostics'' (Some ''1.1.1.1'')) \<and>
   watchdog_check_connectivity
     (probe_events [] (Diagnostics_init ''diagnostics'' (Some ''1.1.1.1'')))
     = (probe_events [] (Diagnostics_init ''diagnostics'' (Some ''1.1.1.1'')), []) \<and>
   \<not> internet_connectivity
       (probe_events [ProbeUpdate True] (Diagnostics_init ''diagnostics'' (Some ''1.1.1.1''))) \<and>
   total_interruptions
     (fst (watchdog_check_connectivity
        (probe_events [ProbeUpdate True] (Diagnostics_init ''diagnostics'' (Some ''1.1.1.1'')))))
     = 1 \<and>
   \<not> internet_connectivity
       (probe_events [ProbeError] (Diagnostics_init ''diagnostics'' (Some ''1.1.1.1''))) \<and>
   icmp_external_test_seq_loss
       (probe_events [ProbeError] (Diagnostics_init ''diagnostics'' (Some ''1.1.1.1''))) = 0 \<and>
   internet_connectivity
     (on_icmp_external_test_update False
        (probe_events [ProbeError] (Diagnostics_init ''diagnostics'' (Some ''1.1.1.1''))))"
proof -
  let ?d = "Diagnostics_init ''diagnostics'' (Some ''1.1.1.1'')"
  have a1: "internet_connectivity ?d" by (simp add: Diagnostics_init_def)
  have a2: "icmp_external_test_seq_loss ?d = 0" by (simp add: Diagnostics_init_def)
  have a3: "1 \<le> icmp_max_seq_loss ?d" by (simp add: Diagnostics_init_def)
  have a4: "\<not> active_interruption ?d" by (simp add: Diagnostics_init_def)
  have n: "icmp_max_seq_loss ?d = 1" by (simp add: Diagnostics_init_def)
  have t: "total_interruptions ?d = 0" by (simp add: Diagnostics_init_def)
  note stable = C4_connectivity_transitions_with_errors [OF a1 a2 a3 a4, of "[]" 0 0]
  note lost = C4_connectivity_transitions_with_errors [OF a1 a2 a3 a4, of "[ProbeUpdate True]" 0 0]
  note err = C4_connectivity_transitions_with_errors [OF a1 a2 a3 a4, of "[ProbeError]" 0 0]
  from stable have s1: "internet_connectivity (probe_events [] ?d)
        = (ProbeError \<notin> set (since_success []) \<and>
           timeouts_since_success [] < icmp_max_seq_loss ?d)"
    by (rule conjunct1)
  then have s2: "internet_connectivity (probe_events [] ?d)"
    by (simp add: n since_success_def timeouts_since_success_def)
  from stable have "internet_connectivity (probe_events [] ?d) \<longrightarrow>
        watchdog_check_connectivity (probe_events [] ?d) = (probe_events [] ?d, [])"
    by blast
  from this s2 have b1: "watchdog_check_connectivity (probe_events [] ?d) = (probe_events [] ?d, [])"
    by (rule mp)
  from lost have "internet_connectivity (probe_events [ProbeUpdate True] ?d)
        = (ProbeError \<notin> set (since_success [ProbeUpdate True]) \<and>
           timeouts_since_success [ProbeUpdate True] < icmp_max_seq_loss ?d)"
    by (rule conjunct1)
  then have b2: "\<not> internet_connectivity (probe_events [ProbeUpdate True] ?d)"
    by (simp add: n since_success_def timeouts_since_success_def)
  from lost have "\<not> internet_connectivity (probe_events [ProbeUpdate True] ?d) \<longrightarrow>
        total_interruptions
          (((\<lambda>x. fst (watchdog_check_connectivity x)) ^^ Suc 0)
             (probe_events [ProbeUpdate True] ?d)) = total_interruptions ?d + 1"
    by blast
  from this b2 have "total_interruptions
          (((\<lambda>x. fst (watchdog_check_connectivity x)) ^^ Suc 0)
             (probe_events [ProbeUpdate True] ?d)) = total_interruptions ?d + 1"
    by (rule mp)
  then have b3: "total_interruptions
      (fst (watchdog_check_connectivity (probe_events [ProbeUpdate True] ?d))) = 1"
    by (simp add: t)
  from err have "internet_connectivity (probe_events [ProbeError] ?d)
        = (ProbeError \<notin> set (since_success [ProbeError]) \<and>
           timeouts_since_success [ProbeError] < icmp_max_seq_loss ?d)"
    by (rule conjunct1)
  then have b4: "\<not> internet_connectivity (probe_events [ProbeError] ?d)"
    by (simp add: since_success_def)
  from err have "icmp_external_test_seq_loss (probe_events [ProbeError] ?d)
        = timeouts_since_success [ProbeError]"
    by blast
  then have b5: "icmp_external_test_seq_loss (probe_events [ProbeError] ?d) = 0"
    by (simp add: since_success_def timeouts_since_success_def)
  from err have "internet_connectivity
      (on_icmp_external_test_update False
         (((\<lambda>x. fst (watchdog_check_connectivity x)) ^^ 0) (probe_events [ProbeError] ?d)))"
    by blast
  then have b6: "internet_connectivity
      (on_icmp_external_test_update False (probe_events [ProbeError] ?d))"
    by simp
  from a1 a2 a3 a4 b1 b2 b3 b4 b5 b6 show ?thesis by (intro conjI)
qed

section \<open>Properties of start and stop\<close>

lemma start_while_alive:
  "Diagnostics_running d \<Longrightarrow> start env (d, w) = Some (None, d, w)"
  by (simp add: start_def Diagnostics_running_def)

lemma stop_while_idle:
  "\<not> Diagnostics_running d \<Longrightarrow> stop blocking watchdog_exit d = d\<lparr>running := False\<rparr>"
  by (simp add: stop_def Diagnostics_running_def Let_def split: option.splits)

text \<open>A first \<open>start\<close> on a fresh object, with nothing failing, starts the session.\<close>

lemma start_fresh:
  "start \<lparr>timestamp = ''2026-11-04T10-00-00+0000'', exists_error = None, firewall_error = None,
          mkdir_error = None, logging_setup_error = None, logging_start_error = None\<rparr>
     (Diagnostics_init ''diagnostics'' (Some ''1.1.1.1''),
      \<lparr>paths = {}, firewall_rules = False, session_logging = [], watchdog_threads_started = 0\<rparr>)
   = Some (None,
      (Diagnostics_init ''diagnostics'' (Some ''1.1.1.1''))
        \<lparr>running := True,
         stop_diagnostics_logging := Some ''diagnostics/2026-11-04T10-00-00+0000'',
         watchdog_thread := Some (Thread ''watchdog'' True)\<rparr>,
      \<lparr>paths = {''diagnostics/2026-11-04T10-00-00+0000''}, firewall_rules = True,
       session_logging = [''diagnostics/2026-11-04T10-00-00+0000''],
       watchdog_threads_started = 1\<rparr>)"
  by (simp add: start_def Diagnostics_init_def unused_dir.simps)

lemma stop_while_idle_flag_clear:
  assumes "\<not> Diagnostics_running d" and "\<not> running d"
  shows "stop blocking watchdog_exit d = d"
proof -
  from assms(1) have "stop blocking watchdog_exit d = d\<lparr>running := False\<rparr>"
    by (rule stop_while_idle)
  with assms(2) show ?thesis by simp
qed

text \<open>
  When \<open>start\<close> raises, it leaves the \<open>running\<close> flag clear, unless the exception is an
  \<^verbatim>\<open>OSError\<close> of \<^verbatim>\<open>mkdir\<close>.
\<close>

lemma start_error_clears_flag:
  assumes "start env (d, w) = Some (Some e, d', w')"
    and "\<forall>errno msg fname. mkdir_error env \<noteq> Some (OSError errno msg fname)"
  shows "\<not> running d'"
  using assms
  by (auto simp: start_def Let_def split: if_splits option.splits py_error.splits)

text \<open>
  Claim C8 against the code.  \<open>start\<close> while the watchdog thread is alive changes nothing
  (\<open>start_while_alive\<close>), and \<open>stop\<close> while no watchdog thread is alive changes nothing
  when the \<open>running\<close> flag is clear (\<open>stop_while_idle_flag_clear\<close>), as the constructor,
  the clean-up and every other failing path of \<open>start\<close> leave it.  But when \<open>start\<close> on a
  fresh object fails in \<^verbatim>\<open>mkdir\<close> with an \<^verbatim>\<open>OSError\<close>, its handler re-raises without
  clearing the flag: no watchdog thread exists, the flag is set, and \<open>stop\<close> then changes
  the object although the watchdog is idle.
\<close>

theorem C8_stop_changes_state_after_failed_mkdir:
  "start \<lparr>timestamp = ''2026-11-04T10-00-00+0000'', exists_error = None, firewall_error = None,
          mkdir_error = Some (OSError (Some 13) ''Permission denied'' None),
          logging_setup_error = None, logging_start_error = None\<rparr>
     (Diagnostics_init ''diagnostics'' (Some ''1.1.1.1''),
      \<lparr>paths = {}, firewall_rules = False, session_logging = [], watchdog_threads_started = 0\<rparr>)
   = Some (Some (OSError (Some 13) ''Failed to create current diagnostics directory''
                   (Some ''diagnostics/2026-11-04T10-00-00+0000'')),
           (Diagnostics_init ''diagnostics'' (Some ''1.1.1.1''))\<lparr>running := True\<rparr>,
           \<lparr>paths = {}, firewall_rules = True, session_logging = [],
            watchdog_threads_started = 0\<rparr>) \<and>
   \<not> Diagnostics_running ((Diagnostics_init ''diagnostics'' (Some ''1.1.1.1''))\<lparr>running := True\<rparr>) \<and>
   stop True id ((Diagnostics_init ''diagnostics'' (Some ''1.1.1.1''))\<lparr>running := True\<rparr>)
     \<noteq> (Diagnostics_init ''diagnostics'' (Some ''1.1.1.1''))\<lparr>running := True\<rparr>"
  by (simp add: start_def stop_def Diagnostics_running_def Diagnostics_init_def unused_dir.simps)


section \<open>Properties of the interruption tests\<close>

lemma SHORT_TESTS_neq_LONG_TESTS: "SHORT_TESTS \<noteq> LONG_TESTS"
  by (simp add: SHORT_TESTS_def LONG_TESTS_def)

lemma loop_body_settled:
  assumes "traceroute_succeeded v" and "short_speed_test_succeeded v"
    and "\<not> long_speed_test v"
  shows "loop_body d it (v, acts) = (v, acts)"
  using assms
  by (simp add: loop_body_def start_traceroute_def short_test_def long_test_def
      check_traceroute_def)

lemma loop_settled_without_long_test:
  assumes "traceroute_succeeded v" and "short_speed_test_succeeded v"
    and "\<not> long_speed_test v" and "\<not> long_speed_test_succeeded v"
    and "it_running it" and "it_active_interruption it"
  shows "interruption_tests_loop d (replicate n it) (v, acts) =
           (StillRetrying, v, acts @ replicate n (Sleep (watchdog_interruption_tests_interval d)))"
proof (induction n arbitrary: acts)
  case 0
  show ?case by simp
next
  case (Suc n)
  have "interruption_tests_loop d (replicate (Suc n) it) (v, acts) =
          interruption_tests_loop d (replicate n it)
            (v, acts @ [Sleep (watchdog_interruption_tests_interval d)])"
    using assms by (simp add: loop_body_settled Let_def)
  also have "\<dots> = (StillRetrying, v,
       (acts @ [Sleep (watchdog_interruption_tests_interval d)]) @
         replicate n (Sleep (watchdog_interruption_tests_interval d)))"
    by (rule Suc.IH)
  finally show ?case by (simp add: replicate_app_Cons_same)
qed

lemma loop_body_runs_short_tests_only:
  assumes "RunSpeedTest LONG_TESTS \<notin> set (snd va)"
  shows "RunSpeedTest LONG_TESTS \<notin> set (snd (loop_body d it va))"
  using assms SHORT_TESTS_neq_LONG_TESTS
  by (simp add: loop_body_def start_traceroute_def short_test_def long_test_def
      check_traceroute_def Let_def)

lemma loop_runs_short_tests_only:
  assumes "RunSpeedTest LONG_TESTS \<notin> set (snd va)"
  shows "RunSpeedTest LONG_TESTS \<notin> set (snd (snd (interruption_tests_loop d its va)))"
  using assms
proof (induction its arbitrary: va)
  case Nil
  then show ?case by simp
next
  case (Cons it its)
  from loop_body_runs_short_tests_only [OF Cons.prems, of d it]
  have b: "RunSpeedTest LONG_TESTS \<notin> set (snd (loop_body d it va))" .
  then have "RunSpeedTest LONG_TESTS \<notin>
      set (snd (fst (loop_body d it va),
                snd (loop_body d it va) @ [Sleep (watchdog_interruption_tests_interval d)]))"
    by simp
  from Cons.IH [OF this] b Cons.prems show ?case by (simp add: Let_def)
qed

text \<open>
  Claim C2 against the code.  Let every iteration find the session running and the
  interruption active, the traceroute and the short speed test succeed at once, and the
  short speed test take 12 seconds, not less than the threshold of 10.  After the first
  iteration every required sub-test has succeeded (no long speed test is required), yet
  the loop does not leave through its success exit: after any number of iterations it is
  still retrying, and all it has done since the first iteration is sleep.
\<close>

theorem C2_no_success_exit_without_long_test:
  "interruption_tests_loop (Diagnostics_init ''diagnostics'' (Some ''1.1.1.1''))
     (replicate (Suc n)
        \<lparr>it_running = True, it_active_interruption = True, it_traceroute_hops = True,
         it_first_results = True, it_first_duration = 12, it_second_results = True\<rparr>)
     (loop_vars_init, [])
   = (StillRetrying,
      \<lparr>long_speed_test = False, traceroute_succeeded = True,
       short_speed_test_succeeded = True, long_speed_test_succeeded = False\<rparr>,
      [RunTraceroute (Some ''1.1.1.1'') 3 1 True, RunSpeedTest SHORT_TESTS] @
      replicate (Suc n) (Sleep 1)) \<and>
   spec_required_tests_succeeded
     \<lparr>long_speed_test = False, traceroute_succeeded = True,
      short_speed_test_succeeded = True, long_speed_test_succeeded = False\<rparr>"
proof -
  let ?d = "Diagnostics_init ''diagnostics'' (Some ''1.1.1.1'')"
  let ?it = "\<lparr>it_running = True, it_active_interruption = True, it_traceroute_hops = True,
         it_first_results = True, it_first_duration = 12, it_second_results = True\<rparr>"
  let ?v = "\<lparr>long_speed_test = False, traceroute_succeeded = True,
       short_speed_test_succeeded = True, long_speed_test_succeeded = False\<rparr>"
  let ?a = "[RunTraceroute (Some ''1.1.1.1'') 3 1 True, RunSpeedTest SHORT_TESTS]"
  have body: "loop_body ?d ?it (loop_vars_init, []) = (?v, ?a)"
    by (simp add: loop_body_def start_traceroute_def short_test_def long_test_def
        check_traceroute_def loop_vars_init_def Diagnostics_init_def Let_def)
  have interval: "watchdog_interruption_tests_interval ?d = 1"
    by (simp add: Diagnostics_init_def)
  have "interruption_tests_loop ?d (replicate (Suc n) ?it) (loop_vars_init, []) =
          interruption_tests_loop ?d (replicate n ?it) (?v, ?a @ [Sleep 1])"
    by (simp add: body interval Let_def)
  also have "\<dots> = (StillRetrying, ?v, (?a @ [Sleep 1]) @ replicate n (Sleep 1))"
    using loop_settled_without_long_test [of ?v ?it ?d n "?a @ [Sleep 1]"]
    by (simp add: interval)
  finally have "interruption_tests_loop ?d (replicate (Suc n) ?it) (loop_vars_init, []) =
      (StillRetrying, ?v, ?a @ replicate (Suc n) (Sleep 1))"
    by simp
  moreover have "spec_required_tests_succeeded ?v"
    by (simp add: spec_required_tests_succeeded_def)
  ultimately show ?thesis by (rule conjI)
qed

text \<open>
  Claim C3 against the code.  Let the short speed test succeed in 3 seconds, below the
  threshold, so that the long speed test is needed, and let everything succeed.  The loop
  then runs a second speed test in the same iteration and leaves through its success
  exit, but that second test is run with \<open>SHORT_TESTS\<close> again.  \<open>LONG_TESTS\<close>, which
  differs from \<open>SHORT_TESTS\<close>, is not run, here or for any other course of the loop.
\<close>

theorem C3_long_test_runs_short_preset:
  "interruption_tests_loop (Diagnostics_init ''diagnostics'' (Some ''1.1.1.1''))
     [\<lparr>it_running = True, it_active_interruption = True, it_traceroute_hops = True,
       it_first_results = True, it_first_duration = 3, it_second_results = True\<rparr>]
     (loop_vars_init, [])
   = (AllTestsFinished,
      \<lparr>long_speed_test = True, traceroute_succeeded = True,
       short_speed_test_succeeded = True, long_speed_test_succeeded = True\<rparr>,
      [RunTraceroute (Some ''1.1.1.1'') 3 1 True, RunSpeedTest SHORT_TESTS,
       RunSpeedTest SHORT_TESTS]) \<and>
   SHORT_TESTS \<noteq> LONG_TESTS \<and>
   RunSpeedTest LONG_TESTS \<notin> set (snd (snd (interruption_tests_loop d its (loop_vars_init, []))))"
proof -
  have run: "interruption_tests_loop (Diagnostics_init ''diagnostics'' (Some ''1.1.1.1''))
     [\<lparr>it_running = True, it_active_interruption = True, it_traceroute_hops = True,
       it_first_results = True, it_first_duration = 3, it_second_results = True\<rparr>]
     (loop_vars_init, [])
   = (AllTestsFinished,
      \<lparr>long_speed_test = True, traceroute_succeeded = True,
       short_speed_test_succeeded = True, long_speed_test_succeeded = True\<rparr>,
      [RunTraceroute (Some ''1.1.1.1'') 3 1 True, RunSpeedTest SHORT_TESTS,
       RunSpeedTest SHORT_TESTS])"
    by (simp add: loop_body_def start_traceroute_def short_test_def long_test_def
        check_traceroute_def loop_vars_init_def Diagnostics_init_def Let_def)
  have never: "RunSpeedTest LONG_TESTS \<notin>
      set (snd (snd (interruption_tests_loop d its (loop_vars_init, []))))"
    by (rule loop_runs_short_tests_only) simp
  from run SHORT_TESTS_neq_LONG_TESTS never show ?thesis by (intro conjI)
qed


end
